theory Spec2Isabelle
  imports Main
begin

section \<open>JavaScript values, style objects and React elements\<close>

text \<open>
  The two components only move values around: theme tokens are read from a style
  object and copied into new style objects, elements are cloned with some props
  replaced, and callbacks are called. A style token is a number, a string or
  \<open>undefined\<close>.
\<close>

datatype jsval = Undefined | Num int | Str string

text \<open>
  \<open>StyleType\<close> is a plain JavaScript object used as a dictionary of style entries.
  Reading a key that the object does not have gives \<open>undefined\<close> and never throws.
\<close>

type_synonym StyleType = "string \<rightharpoonup> jsval"

definition js_get :: "StyleType \<Rightarrow> string \<Rightarrow> jsval" where
  "js_get obj k = (case obj k of None \<Rightarrow> Undefined | Some v \<Rightarrow> v)"

text \<open>
  Object spread \<open>{...obj}\<close> of a style prop that may be \<open>undefined\<close>: spreading
  \<open>undefined\<close> adds no entry.
\<close>

definition spread :: "StyleType option \<Rightarrow> StyleType" where
  "spread obj = (case obj of None \<Rightarrow> Map.empty | Some m \<Rightarrow> m)"

text \<open>
  A React element: its key and its props (the element type is the type of the props).
\<close>

record 'p ReactElement =
  key :: "int option"
  props :: 'p

text \<open>
  A callback is a \<open>void\<close> function called for its effect: a transformer of the
  state \<open>'w\<close> of the world outside the component. \<open>recordCall\<close> is the callback that
  appends its argument to a log, so that the log lists the calls made, in order.
\<close>

type_synonym ('a, 'w) callback = "'a \<Rightarrow> 'w \<Rightarrow> 'w"

definition recordCall :: "('a, 'a list) callback" where
  "recordCall x log = log @ [x]"

text \<open>JavaScript \<open>!x\<close> on an optional boolean: \<open>undefined\<close> is falsy.\<close>

definition js_not :: "bool option \<Rightarrow> bool" where
  "js_not b = (case b of None \<Rightarrow> True | Some v \<Rightarrow> \<not> v)"


section \<open>BottomNavigatorTab\<close>

text \<open>
  Props of the image element an \<open>icon\<close> function returns; only \<open>style\<close> is read by the
  tab, every other image prop is in the extension part of the record.
\<close>

record ImageProps =
  img_style :: "StyleType option"

type_synonym 'i ImageElement = "'i ImageProps_scheme ReactElement"

record TextProps =
  txt_style :: StyleType
  txt_children :: "string option"

text \<open>
  \<open>interface BottomNavigatorTabProps\<close>, every prop optional. The declared result type
  of \<open>icon\<close> is an element, and the project admits \<open>null\<close> in every type
  (\<open>renderImageElement\<close> assigns \<open>null\<close> to a constant of that very type), so an
  \<open>icon\<close> function may return \<open>null\<close>: \<open>None\<close>. \<open>Props\<close> adds \<open>style\<close> and
  \<open>themedStyle\<close>; the props of \<open>TouchableOpacityProps\<close> that the component never
  reads are the extension part.
\<close>

record ('w, 'i) BottomNavigatorTabProps =
  title :: "string option"
  icon :: "(StyleType \<Rightarrow> 'i ImageElement option) option"
  selected :: "bool option"
  onSelect :: "(bool, 'w) callback option"

record ('w, 'i) TabProps = "('w, 'i) BottomNavigatorTabProps" +
  style :: "StyleType option"
  themedStyle :: StyleType

text \<open>The object \<open>getComponentStyle\<close> returns: \<open>{ icon: {...}, title: {...} }\<close>.\<close>

record TabComponentStyle =
  icon_style :: StyleType
  title_style :: StyleType

datatype 'i TabChild = ImageChild "'i ImageElement" | TextChild "TextProps ReactElement"

text \<open>
  The \<open>TouchableOpacity\<close> element \<open>render\<close> returns. \<open>derivedProps\<close> is spread first,
  the four explicit attributes after it.
\<close>

record ('w, 'i, 'z) TouchableOpacityProps =
  to_derivedProps :: "('w, 'i, 'z) BottomNavigatorTabProps_scheme"
  to_style :: "StyleType option list"
  activeOpacity :: int
  onPress :: "'w \<Rightarrow> 'w"
  to_children :: "'i TabChild option list"

definition BottomNavigatorTab_styles_container :: StyleType where
  "BottomNavigatorTab_styles_container =
     [''flex'' \<mapsto> Num 1, ''justifyContent'' \<mapsto> Str ''center'', ''alignItems'' \<mapsto> Str ''center'']"

text \<open>
  \<^verbatim>\<open>
  private onPress = () => {
    if (this.props.onSelect) {
      this.props.onSelect(!this.props.selected);
    }
  };
  \<close>
\<close>

definition BottomNavigatorTab_onPress :: "('w, 'i, 'z) TabProps_scheme \<Rightarrow> 'w \<Rightarrow> 'w" where
  "BottomNavigatorTab_onPress p w =
     (case onSelect p of
        Some f \<Rightarrow> f (js_not (selected p)) w
      | None \<Rightarrow> w)"

definition BottomNavigatorTab_getComponentStyle :: "StyleType \<Rightarrow> TabComponentStyle" where
  "BottomNavigatorTab_getComponentStyle source =
     \<lparr> icon_style =
         [''width'' \<mapsto> js_get source ''iconWidth'',
          ''height'' \<mapsto> js_get source ''iconHeight'',
          ''marginBottom'' \<mapsto> js_get source ''iconMarginBottom'',
          ''tintColor'' \<mapsto> js_get source ''iconTintColor''],
       title_style =
         [''color'' \<mapsto> js_get source ''textColor'',
          ''fontWeight'' \<mapsto> js_get source ''textFontWeight''] \<rparr>"

text \<open>
  \<^verbatim>\<open>
  private renderImageElement(style: StyleType): React.ReactElement<ImageProps> | null {
    const icon: React.ReactElement<ImageProps> = this.props.icon ?
      this.props.icon(style) : null;
    return icon ? React.cloneElement(icon, {
      style: {
        ...(icon.props.style as object),
        marginBottom: style.source,
      },
      key: 1,
    }) : null;
  }
  \<close>
  The parameter \<open>style\<close> is the icon style that \<open>getComponentStyle\<close> built. The
  second test is on the element the \<open>icon\<close> function returned.
\<close>

definition renderImageElement ::
  "('w, 'i, 'z) TabProps_scheme \<Rightarrow> StyleType \<Rightarrow> 'i ImageElement option" where
  "renderImageElement p sty =
     (let icon_el = (case icon p of Some f \<Rightarrow> f sty | None \<Rightarrow> None)
      in case icon_el of
           Some el \<Rightarrow>
             Some (el\<lparr> props := (props el)\<lparr> img_style :=
                          Some ((spread (img_style (props el)))
                                  (''marginBottom'' \<mapsto> js_get sty ''source'')) \<rparr>,
                       key := Some 1 \<rparr>)
         | None \<Rightarrow> None)"

text \<open>
  \<^verbatim>\<open>
  private renderTextElement(style: StyleType): React.ReactElement<TextProps> | null {
    const { title } = this.props;
    return title && title.length !== 0 ? (
      <Text key={2} style={style}>{this.props.title}</Text>
    ) : null;
  }
  \<close>
  A string is truthy when it is not empty.
\<close>

definition renderTextElement ::
  "('w, 'i, 'z) TabProps_scheme \<Rightarrow> StyleType \<Rightarrow> TextProps ReactElement option" where
  "renderTextElement p sty =
     (case title p of
        None \<Rightarrow> None
      | Some t \<Rightarrow>
          if t \<noteq> [] \<and> length t \<noteq> 0
          then Some \<lparr> key = Some 2, props = \<lparr> txt_style = sty, txt_children = title p \<rparr> \<rparr>
          else None)"

text \<open>
  \<^verbatim>\<open>
  private renderComponentChildren = (style: StyleType): React.ReactNode => ([
    this.renderImageElement(style.icon),
    this.renderTextElement(style.title),
  ]);
  \<close>
\<close>

definition BottomNavigatorTab_renderComponentChildren ::
  "('w, 'i, 'z) TabProps_scheme \<Rightarrow> TabComponentStyle \<Rightarrow> 'i TabChild option list" where
  "BottomNavigatorTab_renderComponentChildren p sty =
     [map_option ImageChild (renderImageElement p (icon_style sty)),
      map_option TextChild (renderTextElement p (title_style sty))]"

text \<open>
  \<^verbatim>\<open>
  public render(): React.ReactNode {
    const { style, themedStyle, ...derivedProps } = this.props;
    const componentStyles: StyleType = this.getComponentStyle(themedStyle);
    const componentChildren: React.ReactNode = this.renderComponentChildren(componentStyles);
    return (
      <TouchableOpacity
        {...derivedProps}
        style={[style, styles.container]}
        activeOpacity={1.0}
        onPress={this.onPress}>
        {componentChildren}
      </TouchableOpacity>
    );
  }
  \<close>
\<close>

definition BottomNavigatorTab_render ::
  "('w, 'i, 'z) TabProps_scheme \<Rightarrow> ('w, 'i, 'z) TouchableOpacityProps" where
  "BottomNavigatorTab_render p =
     (let derivedProps = \<lparr> title = title p, icon = icon p, selected = selected p,
                           onSelect = onSelect p, \<dots> = TabProps.more p \<rparr>;
          componentStyles = BottomNavigatorTab_getComponentStyle (themedStyle p);
          componentChildren = BottomNavigatorTab_renderComponentChildren p componentStyles
      in \<lparr> to_derivedProps = derivedProps,
           to_style = [style p, Some BottomNavigatorTab_styles_container],
           activeOpacity = 1,
           onPress = BottomNavigatorTab_onPress p,
           to_children = componentChildren \<rparr>)"


section \<open>BottomTabNavigator\<close>

text \<open>
  \<open>children: ChildElement | ChildElement[]\<close>. \<open>React.Children.map\<close> visits a single
  element as a one-element list and passes each child with its position, counted from 0.
\<close>

datatype 'a Children = Single 'a | Many "'a list"

fun Children_toArray :: "'a Children \<Rightarrow> 'a list" where
  "Children_toArray (Single x) = [x]"
| "Children_toArray (Many xs) = xs"

fun mapFrom :: "('a \<Rightarrow> int \<Rightarrow> 'b) \<Rightarrow> int \<Rightarrow> 'a list \<Rightarrow> 'b list" where
  "mapFrom f i [] = []"
| "mapFrom f i (x # xs) = f x i # mapFrom f (i + 1) xs"

definition Children_map :: "'a Children \<Rightarrow> ('a \<Rightarrow> int \<Rightarrow> 'b) \<Rightarrow> 'b list" where
  "Children_map items f = mapFrom f 0 (Children_toArray items)"

text \<open>
  \<open>interface TabNavigatorProps\<close> with \<open>style\<close> and \<open>themedStyle\<close>. The props that
  \<open>render\<close> passes on to the \<open>View\<close> (\<open>derivedProps\<close>: everything but \<open>style\<close>,
  \<open>themedStyle\<close> and \<open>children\<close>) form the parent record; the props of \<open>ViewProps\<close>
  that the component never reads are the extension part. The names of the navigator's
  \<open>onSelect\<close>, \<open>style\<close> and \<open>themedStyle\<close> carry the prefix \<open>nav_\<close> to tell them
  from the tab's.
\<close>

record 'w NavigatorDerivedProps =
  selectedIndex :: "int option"
  nav_onSelect :: "(int, 'w) callback option"

record ('w, 'c) NavigatorProps = "'w NavigatorDerivedProps" +
  children :: "'c Children"
  nav_style :: "StyleType option"
  nav_themedStyle :: StyleType

type_synonym ('w, 'i, 'z) ChildElement = "('w, 'i, 'z) TabProps_scheme ReactElement"

record TabBarIndicatorProps =
  ind_style :: "StyleType list"
  selectedPosition :: int
  positions :: nat

text \<open>
  The object \<open>getComponentStyle\<close> returns, \<open>{ container: {...}, indicator: {...} }\<close>,
  and what is left of it once \<open>render\<close> has taken \<open>container\<close> out.
\<close>

record NavigatorComponentStyle =
  container :: StyleType
  indicator :: StyleType

record NavigatorRestStyle =
  rest_indicator :: StyleType

datatype 'c NavigatorChild =
  IndicatorChild "TabBarIndicatorProps ReactElement" | TabElementChild 'c

record ('w, 'c, 'y) ViewProps =
  view_derivedProps :: "('w, 'y) NavigatorDerivedProps_scheme"
  view_style :: "StyleType option list"
  view_children :: "'c NavigatorChild option list"

text \<open>
  \<open>static defaultProps = { selectedIndex: 0 }\<close>: React fills in the default when the
  element is created, so every read of \<open>this.props.selectedIndex\<close> sees 0 when the
  prop was omitted.
\<close>

definition defaultProps_selectedIndex :: int where
  "defaultProps_selectedIndex = 0"

definition this_props_selectedIndex :: "('w, 'y) NavigatorDerivedProps_scheme \<Rightarrow> int" where
  "this_props_selectedIndex p =
     (case selectedIndex p of None \<Rightarrow> defaultProps_selectedIndex | Some i \<Rightarrow> i)"

text \<open>
  \<open>StyleSheet.create\<close> of the navigator; the window width is read from the device
  once, when the module is loaded, and is a parameter here.
\<close>

definition BottomTabNavigator_styles_container :: "jsval \<Rightarrow> StyleType" where
  "BottomTabNavigator_styles_container windowWidth =
     [''flexDirection'' \<mapsto> Str ''row'', ''justifyContent'' \<mapsto> Str ''space-between'',
      ''width'' \<mapsto> windowWidth]"

definition BottomTabNavigator_styles_indicator :: StyleType where
  "BottomTabNavigator_styles_indicator = [''position'' \<mapsto> Str ''absolute'']"

definition BottomTabNavigator_getComponentStyle :: "StyleType \<Rightarrow> NavigatorComponentStyle" where
  "BottomTabNavigator_getComponentStyle sty =
     \<lparr> container =
         [''backgroundColor'' \<mapsto> js_get sty ''backgroundColor'',
          ''paddingVertical'' \<mapsto> js_get sty ''paddingVertical'',
          ''borderTopColor'' \<mapsto> js_get sty ''borderTopColor'',
          ''borderTopWidth'' \<mapsto> js_get sty ''borderTopWidth''],
       indicator =
         [''height'' \<mapsto> js_get sty ''indicatorHeight'',
          ''backgroundColor'' \<mapsto> js_get sty ''indicatorBackgroundColor''] \<rparr>"

text \<open>
  \<^verbatim>\<open>
  private onChildPress = (index: number): void => {
    if (this.props.onSelect && this.props.selectedIndex !== index) {
      this.props.onSelect(index);
    }
  };
  \<close>
\<close>

definition onChildPress :: "('w, 'y) NavigatorDerivedProps_scheme \<Rightarrow> int \<Rightarrow> 'w \<Rightarrow> 'w" where
  "onChildPress p index w =
     (case nav_onSelect p of
        Some f \<Rightarrow> if this_props_selectedIndex p \<noteq> index then f index w else w
      | None \<Rightarrow> w)"

text \<open>
  \<^verbatim>\<open>
  private renderIndicatorElement = (positions: number, style: StyleType) => {
    return (
      <TabBarIndicator
        key={0}
        style={[style, styles.indicator]}
        selectedPosition={this.props.selectedIndex}
        positions={positions}
      />
    );
  };
  \<close>
\<close>

definition renderIndicatorElement ::
  "('w, 'y) NavigatorDerivedProps_scheme \<Rightarrow> nat \<Rightarrow> StyleType \<Rightarrow> TabBarIndicatorProps ReactElement"
  where
  "renderIndicatorElement p n sty =
     \<lparr> key = Some 0,
       props = \<lparr> ind_style = [sty, BottomTabNavigator_styles_indicator],
                 selectedPosition = this_props_selectedIndex p,
                 positions = n \<rparr> \<rparr>"

text \<open>
  \<^verbatim>\<open>
  private renderTabElement = (element: ChildElement, index: number) => {
    return React.cloneElement(element, {
      key: index,
      style: { flex: 1 },
      selected: index === this.props.selectedIndex,
      onSelect: () => this.onChildPress(index),
    });
  };
  \<close>
  \<open>cloneElement\<close> copies the element, replaces its key and replaces or adds the
  listed props; the injected \<open>onSelect\<close> ignores the argument it is called with.
\<close>

definition renderTabElement ::
  "('w, 'y) NavigatorDerivedProps_scheme \<Rightarrow> ('w, 'i, 'z) ChildElement \<Rightarrow> int
     \<Rightarrow> ('w, 'i, 'z) ChildElement" where
  "renderTabElement p element index =
     element\<lparr> key := Some index,
              props := (props element)\<lparr>
                 style := Some [''flex'' \<mapsto> Num 1],
                 selected := Some (index = this_props_selectedIndex p),
                 onSelect := Some (\<lambda>_. onChildPress p index) \<rparr> \<rparr>"

text \<open>
  \<^verbatim>\<open>
  private renderComponentChildren = (items: ChildElement | ChildElement[], style: StyleType) => {
    const { indicator } = style;
    const tabElements = React.Children.map(items, this.renderTabElement);
    const shouldShowIndicator: boolean = indicator.backgroundColor !== 'transparent';
    return [
      shouldShowIndicator ? this.renderIndicatorElement(tabElements.length, indicator) : undefined,
      ...tabElements,
    ];
  };
  \<close>
\<close>

definition BottomTabNavigator_renderComponentChildren ::
  "('w, 'y) NavigatorDerivedProps_scheme \<Rightarrow> ('w, 'i, 'z) ChildElement Children
     \<Rightarrow> NavigatorRestStyle \<Rightarrow> ('w, 'i, 'z) ChildElement NavigatorChild option list" where
  "BottomTabNavigator_renderComponentChildren p items sty =
     (let indicator_sty = rest_indicator sty;
          tabElements = Children_map items (renderTabElement p);
          shouldShowIndicator = (js_get indicator_sty ''backgroundColor'' \<noteq> Str ''transparent'')
      in (if shouldShowIndicator
          then Some (IndicatorChild (renderIndicatorElement p (length tabElements) indicator_sty))
          else None)
         # map (\<lambda>e. Some (TabElementChild e)) tabElements)"

text \<open>
  \<^verbatim>\<open>
  public render(): React.ReactNode {
    const { style, themedStyle, children, ...derivedProps } = this.props;
    const { container, ...componentStyles } = this.getComponentStyle(themedStyle);
    const componentChildren: ChildElement[] = this.renderComponentChildren(children, componentStyles);
    return (
      <View
        {...derivedProps}
        style={[container, style, styles.container]}>
        {componentChildren}
      </View>
    );
  }
  \<close>
\<close>

definition BottomTabNavigator_render ::
  "jsval \<Rightarrow> ('w, ('w, 'i, 'z) ChildElement, 'y) NavigatorProps_scheme
     \<Rightarrow> ('w, ('w, 'i, 'z) ChildElement, 'y) ViewProps" where
  "BottomTabNavigator_render windowWidth p =
     (let derivedProps = \<lparr> selectedIndex = Some (this_props_selectedIndex p),
                           nav_onSelect = nav_onSelect p, \<dots> = NavigatorProps.more p \<rparr>;
          all_styles = BottomTabNavigator_getComponentStyle (nav_themedStyle p);
          componentStyles = \<lparr> rest_indicator = indicator all_styles \<rparr>;
          componentChildren =
            BottomTabNavigator_renderComponentChildren p (children p) componentStyles
      in \<lparr> view_derivedProps = derivedProps,
           view_style = [Some (container all_styles), nav_style p,
                         Some (BottomTabNavigator_styles_container windowWidth)],
           view_children = componentChildren \<rparr>)"

text \<open>
  A tap on the tab at position \<open>i\<close> of the rendered navigator: the touchable element
  that the \<open>i\<close>-th injected tab element renders runs its \<open>onPress\<close> handler. There is
  nothing to tap (\<open>None\<close>) when the navigator has no tab at that position.
\<close>

definition renderedTabs ::
  "('w, 'c, 'y) ViewProps \<Rightarrow> 'c list" where
  "renderedTabs v =
     concat (map (\<lambda>c. case c of Some (TabElementChild e) \<Rightarrow> [e] | _ \<Rightarrow> []) (view_children v))"

definition pressTab ::
  "jsval \<Rightarrow> ('w, ('w, 'i, 'z) ChildElement, 'y) NavigatorProps_scheme \<Rightarrow> nat \<Rightarrow> 'w \<Rightarrow> 'w option"
  where
  "pressTab windowWidth p i w =
     (let tabs = renderedTabs (BottomTabNavigator_render windowWidth p)
      in if i < length tabs
         then Some (onPress (BottomNavigatorTab_render (props (tabs ! i))) w)
         else None)"


section \<open>Example inputs\<close>

text \<open>
  Concrete props on which the theorems below are evaluated: theme tokens for a tab and
  for the navigator, a tab with a title, and a navigator with two such tabs, no
  \<open>selectedIndex\<close> and a recording \<open>onSelect\<close> callback.
\<close>

definition exampleTheme :: StyleType where
  "exampleTheme =
     [''iconWidth'' \<mapsto> Num 24, ''iconHeight'' \<mapsto> Num 24, ''iconMarginBottom'' \<mapsto> Num 4,
      ''iconTintColor'' \<mapsto> Str ''gray'', ''textColor'' \<mapsto> Str ''gray'',
      ''textFontWeight'' \<mapsto> Str ''normal'']"

definition exampleNavigatorTheme :: StyleType where
  "exampleNavigatorTheme =
     [''backgroundColor'' \<mapsto> Str ''white'', ''paddingVertical'' \<mapsto> Num 4,
      ''borderTopColor'' \<mapsto> Str ''gray'', ''borderTopWidth'' \<mapsto> Num 1,
      ''indicatorHeight'' \<mapsto> Num 4, ''indicatorBackgroundColor'' \<mapsto> Str ''blue'']"

definition exampleTab :: "string \<Rightarrow> (int list, unit, unit) ChildElement" where
  "exampleTab t =
     \<lparr> key = None,
       props = \<lparr> title = Some t, icon = None, selected = None, onSelect = None,
                 style = None, themedStyle = exampleTheme \<rparr> \<rparr>"

definition exampleNavigator ::
  "(int list, (int list, unit, unit) ChildElement) NavigatorProps" where
  "exampleNavigator =
     \<lparr> selectedIndex = None, nav_onSelect = Some recordCall,
       children = Many [exampleTab ''Home'', exampleTab ''Settings''],
       nav_style = None, nav_themedStyle = exampleNavigatorTheme \<rparr>"

text \<open>
  A selected tab with a recording \<open>onSelect\<close> callback, a tab whose \<open>icon\<close>
  function puts the style it is given on the image it returns
  (\<open>style => <Image style={style}/>\<close>), a tab with an empty title and no icon, and
  a tab with an empty title whose \<open>icon\<close> function returns \<open>null\<close>
  (\<open>() => null\<close>).
\<close>

definition exampleSelectedTabProps :: "(bool list, unit) TabProps" where
  "exampleSelectedTabProps =
     \<lparr> title = Some ''Home'', icon = None, selected = Some True, onSelect = Some recordCall,
       style = None, themedStyle = exampleTheme \<rparr>"

definition passThroughIcon :: "StyleType \<Rightarrow> unit ImageElement option" where
  "passThroughIcon sty = Some \<lparr> key = None, props = \<lparr> img_style = Some sty \<rparr> \<rparr>"

definition exampleIconTabProps :: "(bool list, unit) TabProps" where
  "exampleIconTabProps =
     \<lparr> title = Some ''Home'', icon = Some passThroughIcon, selected = Some False,
       onSelect = None, style = None, themedStyle = exampleTheme \<rparr>"

definition exampleUntitledTabProps :: "(bool list, unit) TabProps" where
  "exampleUntitledTabProps = exampleSelectedTabProps\<lparr> title := Some [] \<rparr>"

definition nullIcon :: "StyleType \<Rightarrow> unit ImageElement option" where
  "nullIcon sty = None"

definition exampleNullIconTabProps :: "(bool list, unit) TabProps" where
  "exampleNullIconTabProps = exampleUntitledTabProps\<lparr> icon := Some nullIcon \<rparr>"

text \<open>
  The example navigator without a callback, and with a transparent indicator.
\<close>

definition exampleSilentNavigator ::
  "(int list, (int list, unit, unit) ChildElement) NavigatorProps" where
  "exampleSilentNavigator = exampleNavigator\<lparr> nav_onSelect := None \<rparr>"




section \<open>Traversal of the children and the rendered tabs\<close>

lemma length_mapFrom: "length (mapFrom f i xs) = length xs"
  by (induction xs arbitrary: i) simp_all

lemma nth_mapFrom: "n < length xs \<Longrightarrow> mapFrom f i xs ! n = f (xs ! n) (i + int n)"
proof (induction xs arbitrary: i n)
  case Nil
  then show ?case by simp
next
  case (Cons x xs)
  show ?case
  proof (cases n)
    case 0
    then show ?thesis by simp
  next
    case (Suc m)
    with Cons.prems have "m < length xs" by simp
    then have "mapFrom f (i + 1) xs ! m = f (xs ! m) (i + 1 + int m)"
      by (rule Cons.IH)
    with Suc show ?thesis by (simp add: add.assoc)
  qed
qed

lemma two_elems: "length xs = 2 \<Longrightarrow> \<exists>a b. xs = [a, b]"
  by (cases xs; cases "tl xs"; cases "tl (tl xs)") auto

lemma length_Children_map: "length (Children_map items f) = length (Children_toArray items)"
  by (simp add: Children_map_def length_mapFrom)

lemma nth_Children_map:
  "n < length (Children_toArray items) \<Longrightarrow>
     Children_map items f ! n = f (Children_toArray items ! n) (int n)"
  by (simp add: Children_map_def nth_mapFrom)

lemma concat_tab_children:
  "concat (map ((\<lambda>c. case c of Some (TabElementChild e) \<Rightarrow> [e] | _ \<Rightarrow> [])
                 \<circ> (\<lambda>e. Some (TabElementChild e))) xs) = xs"
  by (induction xs) simp_all

lemma renderedTabs_render:
  "renderedTabs (BottomTabNavigator_render ww p) = Children_map (children p) (renderTabElement p)"
  by (simp add: renderedTabs_def BottomTabNavigator_render_def
      BottomTabNavigator_renderComponentChildren_def Let_def concat_tab_children)

lemma onPress_render: "onPress (BottomNavigatorTab_render q) = BottomNavigatorTab_onPress q"
  by (simp add: BottomNavigatorTab_render_def Let_def)

text \<open>
  A tap on an injected tab runs the closure \<open>() => this.onChildPress(index)\<close>: the
  boolean the tab passes is dropped.
\<close>

lemma pressTab_eq:
  "i < length (Children_toArray (children p)) \<Longrightarrow>
   pressTab ww p i w = Some (onChildPress p (int i) w)"
  by (simp add: pressTab_def renderedTabs_render length_Children_map nth_Children_map
      onPress_render BottomNavigatorTab_onPress_def renderTabElement_def Let_def)


section \<open>Selection callbacks of the navigator\<close>

text \<open>
  C1, as amended. When the navigator has an \<open>onSelect\<close> callback and the tab at a
  position \<open>i\<close> other than the current \<open>selectedIndex\<close> is tapped, the effect of the
  tap is exactly one call of the navigator's \<open>onSelect\<close> with the number \<open>i\<close>.
\<close>

theorem pressTab_invokes_onSelect_with_index:
  assumes "nav_onSelect p = Some f"
    and "i < length (Children_toArray (children p))"
    and "int i \<noteq> this_props_selectedIndex p"
  shows "pressTab ww p i w = Some (f (int i) w)"
  using assms by (simp add: pressTab_eq onChildPress_def)

text \<open>
  The second tab of the example navigator is tapped while the first is selected: the
  log of calls goes from empty to the single entry 1.
\<close>

theorem pressTab_invokes_onSelect_with_index_witness:
  "nav_onSelect exampleNavigator = Some recordCall
   \<and> 1 < length (Children_toArray (children exampleNavigator))
   \<and> int 1 \<noteq> this_props_selectedIndex exampleNavigator
   \<and> pressTab (Num 320) exampleNavigator 1 [] = Some [1]"
proof -
  have a: "nav_onSelect exampleNavigator = Some recordCall"
    by (simp add: exampleNavigator_def)
  have b: "1 < length (Children_toArray (children exampleNavigator))"
    by (simp add: exampleNavigator_def)
  have c: "int 1 \<noteq> this_props_selectedIndex exampleNavigator"
    by (simp add: exampleNavigator_def this_props_selectedIndex_def defaultProps_selectedIndex_def)
  from pressTab_invokes_onSelect_with_index [OF a b c, of "Num 320" "[]"] a b c
  show ?thesis
    by (simp add: recordCall_def)
qed

text \<open>
  C1 as it is stated, for every position, fails on the selected tab: the example
  navigator has an \<open>onSelect\<close> callback and a tab at position 0, which is the selected
  one, and a tap on it leaves the log of calls empty instead of recording a call with 0.
\<close>

theorem pressTab_selected_tab_counterexample:
  "nav_onSelect exampleNavigator = Some recordCall
   \<and> 0 < length (Children_toArray (children exampleNavigator))
   \<and> pressTab (Num 320) exampleNavigator 0 [] = Some []
   \<and> pressTab (Num 320) exampleNavigator 0 [] \<noteq> Some (recordCall 0 [])"
  by (simp add: exampleNavigator_def pressTab_eq onChildPress_def recordCall_def
      this_props_selectedIndex_def defaultProps_selectedIndex_def)


section \<open>The style of the icon\<close>

text \<open>
  \<open>getComponentStyle\<close> copies the four icon tokens of the theme into the icon style,
  and that style is the argument of the \<open>icon\<close> function.
\<close>

lemma getComponentStyle_icon_tokens:
  "js_get (icon_style (BottomNavigatorTab_getComponentStyle source)) ''width''
     = js_get source ''iconWidth''
   \<and> js_get (icon_style (BottomNavigatorTab_getComponentStyle source)) ''height''
     = js_get source ''iconHeight''
   \<and> js_get (icon_style (BottomNavigatorTab_getComponentStyle source)) ''tintColor''
     = js_get source ''iconTintColor''
   \<and> js_get (icon_style (BottomNavigatorTab_getComponentStyle source)) ''marginBottom''
     = js_get source ''iconMarginBottom''"
  by (simp add: BottomNavigatorTab_getComponentStyle_def js_get_def)

text \<open>
  The icon style has no entry \<open>source\<close>, so \<open>style.source\<close> in \<open>renderImageElement\<close>
  is \<open>undefined\<close> for every theme.
\<close>

lemma icon_style_source_undefined:
  "js_get (icon_style (BottomNavigatorTab_getComponentStyle source)) ''source'' = Undefined"
  by (simp add: BottomNavigatorTab_getComponentStyle_def js_get_def)

text \<open>
  The element that is rendered is the one the \<open>icon\<close> function returns for the icon
  style, with key 1 and with \<open>marginBottom\<close> replaced in its style; every other style
  entry is the one the \<open>icon\<close> function chose.
\<close>

lemma renderImageElement_style:
  assumes "icon p = Some f" and "f sty = Some el0"
  shows "\<exists>el. renderImageElement p sty = Some el
          \<and> key el = Some 1
          \<and> js_get (spread (img_style (props el))) ''marginBottom'' = js_get sty ''source''
          \<and> (\<forall>k. k \<noteq> ''marginBottom'' \<longrightarrow>
                js_get (spread (img_style (props el))) k
                  = js_get (spread (img_style (props el0))) k)"
  using assms by (simp add: renderImageElement_def Let_def js_get_def spread_def)

text \<open>
  An icon is rendered exactly when the \<open>icon\<close> prop is defined and the function
  returns an element.
\<close>

lemma renderImageElement_Some_iff:
  "(\<exists>el. renderImageElement p sty = Some el) \<longleftrightarrow> (\<exists>f el0. icon p = Some f \<and> f sty = Some el0)"
  by (simp add: renderImageElement_def Let_def split: option.splits)

lemma rendered_icon_marginBottom_undefined:
  assumes "renderImageElement p (icon_style (BottomNavigatorTab_getComponentStyle source)) = Some el"
  shows "js_get (spread (img_style (props el))) ''marginBottom'' = Undefined"
proof -
  let ?sty = "icon_style (BottomNavigatorTab_getComponentStyle source)"
  from assms renderImageElement_Some_iff [of p ?sty]
  obtain f el0 where f: "icon p = Some f" and el0: "f ?sty = Some el0"
    by blast
  from renderImageElement_style [OF f el0]
  obtain el' where "renderImageElement p ?sty = Some el'"
    and "js_get (spread (img_style (props el'))) ''marginBottom'' = js_get ?sty ''source''"
    by blast
  with assms show ?thesis
    by (simp add: icon_style_source_undefined)
qed

text \<open>
  C2. The claim asks that the rendered icon has \<open>width\<close>, \<open>height\<close>, \<open>tintColor\<close> and
  \<open>marginBottom\<close> equal to the theme tokens \<open>iconWidth\<close>, \<open>iconHeight\<close>,
  \<open>iconTintColor\<close> and \<open>iconMarginBottom\<close>. For the example tab, whose \<open>icon\<close>
  function puts the style it is given on its image and whose theme has
  \<open>iconMarginBottom = 4\<close>, the rendered icon is the first child, its \<open>width\<close>,
  \<open>height\<close> and \<open>tintColor\<close> are the theme's, and its \<open>marginBottom\<close> is
  \<open>undefined\<close>, not 4: \<open>renderImageElement\<close> overwrites it with \<open>style.source\<close>.
\<close>

theorem rendered_icon_loses_marginBottom:
  "\<exists>el txt. to_children (BottomNavigatorTab_render exampleIconTabProps) = [Some (ImageChild el), txt]
     \<and> js_get (spread (img_style (props el))) ''width'' = js_get exampleTheme ''iconWidth''
     \<and> js_get (spread (img_style (props el))) ''height'' = js_get exampleTheme ''iconHeight''
     \<and> js_get (spread (img_style (props el))) ''tintColor'' = js_get exampleTheme ''iconTintColor''
     \<and> js_get exampleTheme ''iconMarginBottom'' = Num 4
     \<and> js_get (spread (img_style (props el))) ''marginBottom'' = Undefined
     \<and> js_get (spread (img_style (props el))) ''marginBottom''
          \<noteq> js_get exampleTheme ''iconMarginBottom''"
  by (simp add: BottomNavigatorTab_render_def BottomNavigatorTab_renderComponentChildren_def
      renderImageElement_def BottomNavigatorTab_getComponentStyle_def exampleIconTabProps_def
      passThroughIcon_def exampleTheme_def spread_def js_get_def Let_def)


section \<open>Rendering of the navigator for any selected index\<close>

text \<open>
  C3. \<open>render\<close> never reads a child by \<open>selectedIndex\<close>; it only compares the index
  of each child with it, so it has a result for every integer, which may be negative or
  beyond the last child: a view whose children are the indicator slot followed by one
  injected tab per child. When \<open>selectedIndex\<close> is negative or at least the number of
  children, every injected tab has \<open>selected = false\<close>.
\<close>

theorem render_any_selectedIndex:
  "length (view_children (BottomTabNavigator_render ww (p\<lparr>selectedIndex := Some k\<rparr>)))
     = Suc (length (Children_toArray (children p)))
   \<and> length (renderedTabs (BottomTabNavigator_render ww (p\<lparr>selectedIndex := Some k\<rparr>)))
       = length (Children_toArray (children p))
   \<and> (k < 0 \<or> int (length (Children_toArray (children p))) \<le> k \<longrightarrow>
        (\<forall>e \<in> set (renderedTabs (BottomTabNavigator_render ww (p\<lparr>selectedIndex := Some k\<rparr>))).
            selected (props e) = Some False))"
proof -
  let ?q = "p\<lparr>selectedIndex := Some k\<rparr>"
  let ?n = "length (Children_toArray (children p))"
  have sel: "this_props_selectedIndex ?q = k"
    by (simp add: this_props_selectedIndex_def)
  have len: "length (renderedTabs (BottomTabNavigator_render ww ?q)) = ?n"
    by (simp add: renderedTabs_render length_Children_map)
  have vc: "length (view_children (BottomTabNavigator_render ww ?q)) = Suc ?n"
    by (simp add: BottomTabNavigator_render_def BottomTabNavigator_renderComponentChildren_def
        Let_def length_Children_map)
  have "selected (props e) = Some False"
    if out: "k < 0 \<or> int ?n \<le> k"
      and mem: "e \<in> set (renderedTabs (BottomTabNavigator_render ww ?q))" for e
  proof -
    from mem len obtain i where i: "i < ?n"
      and e: "e = renderedTabs (BottomTabNavigator_render ww ?q) ! i"
      by (metis in_set_conv_nth)
    from i out have "int i \<noteq> k" by auto
    with i e sel show ?thesis
      by (simp add: renderedTabs_render nth_Children_map renderTabElement_def)
  qed
  with len vc show ?thesis by blast
qed

text \<open>
  The example navigator with \<open>selectedIndex = -1\<close> and with \<open>selectedIndex = 2\<close>
  (it has two tabs): three children in the view, two tabs, both with
  \<open>selected = false\<close>.
\<close>

theorem render_any_selectedIndex_witness:
  "length (view_children (BottomTabNavigator_render (Num 320) (exampleNavigator\<lparr>selectedIndex := Some (- 1)\<rparr>))) = 3
   \<and> map (\<lambda>e. selected (props e))
        (renderedTabs (BottomTabNavigator_render (Num 320) (exampleNavigator\<lparr>selectedIndex := Some (- 1)\<rparr>)))
       = [Some False, Some False]
   \<and> map (\<lambda>e. selected (props e))
        (renderedTabs (BottomTabNavigator_render (Num 320) (exampleNavigator\<lparr>selectedIndex := Some 2\<rparr>)))
       = [Some False, Some False]"
proof -
  have n: "length (Children_toArray (children exampleNavigator)) = 2"
    by (simp add: exampleNavigator_def)
  note low = render_any_selectedIndex [where ww = "Num 320" and p = exampleNavigator and k = "- 1"]
  note high = render_any_selectedIndex [where ww = "Num 320" and p = exampleNavigator and k = 2]
  have all_false: "map (\<lambda>e. selected (props e)) xs = [Some False, Some False]"
    if "length xs = 2" and "\<forall>e \<in> set xs. selected (props e) = Some False"
    for xs :: "(int list, unit, unit) ChildElement list"
  proof -
    from that(1) obtain a b where "xs = [a, b]"
      by (cases xs; cases "tl xs"; cases "tl (tl xs)") auto
    with that(2) show ?thesis by simp
  qed
  from low n have "length (view_children (BottomTabNavigator_render (Num 320)
      (exampleNavigator\<lparr>selectedIndex := Some (- 1)\<rparr>))) = 3"
    by simp
  moreover from low n have "map (\<lambda>e. selected (props e))
        (renderedTabs (BottomTabNavigator_render (Num 320) (exampleNavigator\<lparr>selectedIndex := Some (- 1)\<rparr>)))
       = [Some False, Some False]"
    by (intro all_false) simp_all
  moreover from high n have "map (\<lambda>e. selected (props e))
        (renderedTabs (BottomTabNavigator_render (Num 320) (exampleNavigator\<lparr>selectedIndex := Some 2\<rparr>)))
       = [Some False, Some False]"
    by (intro all_false) simp_all
  ultimately show ?thesis by simp
qed


section \<open>Pressing a tab\<close>

text \<open>
  C4. When the \<open>onSelect\<close> prop of a tab is defined, the effect of pressing the tab
  is exactly one call of \<open>onSelect\<close> with the negation of the tab's current
  \<open>selected\<close> prop: \<open>false\<close> for a selected tab, \<open>true\<close> for a tab that is not
  selected, and \<open>true\<close> as well when \<open>selected\<close> is omitted (\<open>!undefined\<close>).
  \<open>onPress\<close> is the press handler of the touchable element that \<open>render\<close> returns.
\<close>

theorem onPress_invokes_onSelect_with_negation:
  assumes "onSelect p = Some f"
  shows "(\<forall>b. selected p = Some b \<longrightarrow>
            BottomNavigatorTab_onPress p w = f (\<not> b) w
            \<and> onPress (BottomNavigatorTab_render p) w = f (\<not> b) w)
         \<and> (selected p = None \<longrightarrow>
            BottomNavigatorTab_onPress p w = f True w
            \<and> onPress (BottomNavigatorTab_render p) w = f True w)"
  using assms by (simp add: BottomNavigatorTab_onPress_def onPress_render js_not_def)

text \<open>
  The example tab with a recording callback is pressed while selected, while not
  selected and with \<open>selected\<close> omitted: the log of calls goes from empty to the single
  entry \<open>false\<close>, \<open>true\<close> and \<open>true\<close>.
\<close>

theorem onPress_invokes_onSelect_with_negation_witness:
  "onSelect exampleSelectedTabProps = Some recordCall
   \<and> selected exampleSelectedTabProps = Some True
   \<and> BottomNavigatorTab_onPress exampleSelectedTabProps [] = [False]
   \<and> onPress (BottomNavigatorTab_render exampleSelectedTabProps) [] = [False]
   \<and> BottomNavigatorTab_onPress (exampleSelectedTabProps\<lparr>selected := Some False\<rparr>) [] = [True]
   \<and> onPress (BottomNavigatorTab_render (exampleSelectedTabProps\<lparr>selected := Some False\<rparr>)) []
       = [True]
   \<and> BottomNavigatorTab_onPress (exampleSelectedTabProps\<lparr>selected := None\<rparr>) [] = [True]
   \<and> onPress (BottomNavigatorTab_render (exampleSelectedTabProps\<lparr>selected := None\<rparr>)) []
       = [True]"
proof -
  let ?off = "exampleSelectedTabProps\<lparr>selected := Some False\<rparr>"
  let ?omitted = "exampleSelectedTabProps\<lparr>selected := None\<rparr>"
  have a: "onSelect exampleSelectedTabProps = Some recordCall"
    and a_off: "onSelect ?off = Some recordCall"
    and a_omitted: "onSelect ?omitted = Some recordCall"
    by (simp_all add: exampleSelectedTabProps_def)
  have b: "selected exampleSelectedTabProps = Some True"
    by (simp add: exampleSelectedTabProps_def)
  have b_off: "selected ?off = Some False"
    and b_omitted: "selected ?omitted = None"
    by simp_all
  from onPress_invokes_onSelect_with_negation [OF a, of "[]"] b
  have "BottomNavigatorTab_onPress exampleSelectedTabProps [] = recordCall (\<not> True) []
        \<and> onPress (BottomNavigatorTab_render exampleSelectedTabProps) [] = recordCall (\<not> True) []"
    by blast
  then have 1: "BottomNavigatorTab_onPress exampleSelectedTabProps [] = [False]"
    "onPress (BottomNavigatorTab_render exampleSelectedTabProps) [] = [False]"
    by (simp_all add: recordCall_def)
  from onPress_invokes_onSelect_with_negation [OF a_off, of "[]"] b_off
  have "BottomNavigatorTab_onPress ?off [] = recordCall (\<not> False) []
        \<and> onPress (BottomNavigatorTab_render ?off) [] = recordCall (\<not> False) []"
    by blast
  then have 2: "BottomNavigatorTab_onPress ?off [] = [True]"
    "onPress (BottomNavigatorTab_render ?off) [] = [True]"
    by (simp_all add: recordCall_def)
  from onPress_invokes_onSelect_with_negation [OF a_omitted, of "[]"] b_omitted
  have "BottomNavigatorTab_onPress ?omitted [] = recordCall True []
        \<and> onPress (BottomNavigatorTab_render ?omitted) [] = recordCall True []"
    by blast
  then have 3: "BottomNavigatorTab_onPress ?omitted [] = [True]"
    "onPress (BottomNavigatorTab_render ?omitted) [] = [True]"
    by (simp_all add: recordCall_def)
  from a b 1 2 3 show ?thesis by simp
qed

text \<open>
  C5. A press on a tab whose \<open>onSelect\<close> prop is undefined changes nothing, and so
  does \<open>onChildPress\<close>, and with it a tap on any tab, in a navigator whose \<open>onSelect\<close>
  prop is undefined: no callback runs and the handlers return normally.
\<close>

theorem press_without_callback_is_noop:
  "(onSelect q = None \<longrightarrow> BottomNavigatorTab_onPress q w = w)
   \<and> (nav_onSelect p = None \<longrightarrow> onChildPress p index w = w)
   \<and> (nav_onSelect p = None \<and> i < length (Children_toArray (children p))
        \<longrightarrow> pressTab ww p i w = Some w)"
  by (simp add: BottomNavigatorTab_onPress_def onChildPress_def pressTab_eq)

text \<open>
  The example tab with an icon has no \<open>onSelect\<close>, and the silent example navigator
  has none either: pressing the first and tapping the second tab of the other leave the
  log as it was.
\<close>

theorem press_without_callback_is_noop_witness:
  "onSelect exampleIconTabProps = None
   \<and> BottomNavigatorTab_onPress exampleIconTabProps [True] = [True]
   \<and> nav_onSelect exampleSilentNavigator = None
   \<and> onChildPress exampleSilentNavigator 1 [7] = [7]
   \<and> 1 < length (Children_toArray (children exampleSilentNavigator))
   \<and> pressTab (Num 320) exampleSilentNavigator 1 [7] = Some [7]"
proof -
  have a: "onSelect exampleIconTabProps = None"
    by (simp add: exampleIconTabProps_def)
  have b: "nav_onSelect exampleSilentNavigator = None"
    by (simp add: exampleSilentNavigator_def)
  have c: "1 < length (Children_toArray (children exampleSilentNavigator))"
    by (simp add: exampleSilentNavigator_def exampleNavigator_def)
  from press_without_callback_is_noop
         [where q = exampleIconTabProps and w = "[True]"]
       a
  have 1: "BottomNavigatorTab_onPress exampleIconTabProps [True] = [True]"
    by blast
  from press_without_callback_is_noop
         [where p = exampleSilentNavigator and w = "[7]" and index = 1 and i = 1
            and ww = "Num 320" and q = "props (exampleTab [])"]
       b c
  have 2: "onChildPress exampleSilentNavigator 1 [7] = [7]"
    and 3: "pressTab (Num 320) exampleSilentNavigator 1 [7] = Some [7]"
    by blast+
  from a b c 1 2 3 show ?thesis by simp
qed


section \<open>The indicator\<close>




section \<open>The children of a tab\<close>

text \<open>
  C7, as amended. The children of the rendered tab are two slots, the first for the
  icon and the second for the title. The title slot holds a \<open>Text\<close> element if and
  only if the \<open>title\<close> prop is a defined, non-empty string; the icon slot holds the
  icon element if and only if the \<open>icon\<close> prop is defined and the \<open>icon\<close> function
  returns an element, not \<open>null\<close>, for the icon style. So when both are rendered the
  icon comes first.
\<close>

theorem tab_children_icon_then_title:
  "\<exists>img txt. to_children (BottomNavigatorTab_render p)
       = [map_option ImageChild img, map_option TextChild txt]
     \<and> (img \<noteq> None \<longleftrightarrow>
          (\<exists>f. icon p = Some f
             \<and> f (icon_style (BottomNavigatorTab_getComponentStyle (themedStyle p))) \<noteq> None))
     \<and> (txt \<noteq> None \<longleftrightarrow> (\<exists>t. title p = Some t \<and> t \<noteq> []))"
proof (intro exI conjI)
  let ?sty = "BottomNavigatorTab_getComponentStyle (themedStyle p)"
  show "to_children (BottomNavigatorTab_render p)
          = [map_option ImageChild (renderImageElement p (icon_style ?sty)),
             map_option TextChild (renderTextElement p (title_style ?sty))]"
    by (simp add: BottomNavigatorTab_render_def BottomNavigatorTab_renderComponentChildren_def
        Let_def)
  show "renderImageElement p (icon_style ?sty) \<noteq> None
          \<longleftrightarrow> (\<exists>f. icon p = Some f \<and> f (icon_style ?sty) \<noteq> None)"
    by (simp add: renderImageElement_def Let_def split: option.splits)
  show "renderTextElement p (title_style ?sty) \<noteq> None
          \<longleftrightarrow> (\<exists>t. title p = Some t \<and> t \<noteq> [])"
    by (simp add: renderTextElement_def split: option.splits)
qed

text \<open>
  The example tab with an icon and the title \<open>Home\<close> renders the icon, then the
  title; the example tab with an empty title and no icon renders neither.
\<close>

theorem tab_children_icon_then_title_witness:
  "(\<exists>el t. to_children (BottomNavigatorTab_render exampleIconTabProps)
             = [Some (ImageChild el), Some (TextChild t)])
   \<and> to_children (BottomNavigatorTab_render exampleUntitledTabProps) = [None, None]"
proof -
  have a: "icon exampleIconTabProps = Some passThroughIcon"
    "title exampleIconTabProps = Some ''Home''"
    by (simp_all add: exampleIconTabProps_def)
  have a': "passThroughIcon sty \<noteq> None" for sty
    by (simp add: passThroughIcon_def)
  have b: "icon exampleUntitledTabProps = None" "title exampleUntitledTabProps = Some []"
    by (simp_all add: exampleUntitledTabProps_def exampleSelectedTabProps_def)
  from tab_children_icon_then_title [of exampleIconTabProps] a a'
  have 1: "\<exists>el t. to_children (BottomNavigatorTab_render exampleIconTabProps)
             = [Some (ImageChild el), Some (TextChild t)]"
    by auto
  from tab_children_icon_then_title [of exampleUntitledTabProps] b
  have 2: "to_children (BottomNavigatorTab_render exampleUntitledTabProps) = [None, None]"
    by auto
  from 1 2 show ?thesis by blast
qed

text \<open>
  C7 as it is stated, with the icon rendered whenever the \<open>icon\<close> prop is defined,
  fails when the \<open>icon\<close> function returns \<open>null\<close>: the example tab with
  \<open>icon = () => null\<close> has a defined \<open>icon\<close> prop and renders no icon element;
  its icon slot is \<open>null\<close>.
\<close>

theorem null_icon_renders_nothing_counterexample:
  "icon exampleNullIconTabProps = Some nullIcon
   \<and> icon exampleNullIconTabProps \<noteq> None
   \<and> to_children (BottomNavigatorTab_render exampleNullIconTabProps) = [None, None]"
  by (simp add: exampleNullIconTabProps_def exampleUntitledTabProps_def
      exampleSelectedTabProps_def nullIcon_def BottomNavigatorTab_render_def
      BottomNavigatorTab_renderComponentChildren_def renderImageElement_def
      renderTextElement_def Let_def)


section \<open>The injected tab elements\<close>

text \<open>
  C8. The navigator renders one tab element per child, in the order of the children.
  The element at position \<open>i\<close> is the \<open>i\<close>-th child with at most \<open>key\<close>, \<open>style\<close>,
  \<open>selected\<close> and \<open>onSelect\<close> changed: \<open>title\<close>, \<open>icon\<close>, \<open>themedStyle\<close> and
  every further prop are those of the child.
\<close>

theorem clone_keeps_other_props_and_order:
  "length (renderedTabs (BottomTabNavigator_render ww p)) = length (Children_toArray (children p))
   \<and> (\<forall>i < length (Children_toArray (children p)).
        let old = Children_toArray (children p) ! i;
            new = renderedTabs (BottomTabNavigator_render ww p) ! i
        in new = old\<lparr> key := key new,
                      props := (props old)\<lparr> style := style (props new),
                                            selected := selected (props new),
                                            onSelect := onSelect (props new) \<rparr> \<rparr>
           \<and> title (props new) = title (props old)
           \<and> icon (props new) = icon (props old)
           \<and> themedStyle (props new) = themedStyle (props old)
           \<and> TabProps.more (props new) = TabProps.more (props old))"
  by (simp add: renderedTabs_render length_Children_map nth_Children_map renderTabElement_def Let_def)

text \<open>
  The two tabs of the example navigator keep their titles, in order, and their missing
  icons.
\<close>

theorem clone_keeps_other_props_and_order_witness:
  "map (\<lambda>e. title (props e)) (renderedTabs (BottomTabNavigator_render (Num 320) exampleNavigator))
     = [Some ''Home'', Some ''Settings'']
   \<and> map (\<lambda>e. icon (props e)) (renderedTabs (BottomTabNavigator_render (Num 320) exampleNavigator))
     = [None, None]"
proof -
  let ?tabs = "renderedTabs (BottomTabNavigator_render (Num 320) exampleNavigator)"
  have cs: "Children_toArray (children exampleNavigator) = [exampleTab ''Home'', exampleTab ''Settings'']"
    by (simp add: exampleNavigator_def)
  note inst = clone_keeps_other_props_and_order [of "Num 320" exampleNavigator]
  from inst cs have len: "length ?tabs = 2"
    by simp
  from inst cs have "\<forall>i<2. title (props (?tabs ! i)) = title (props ([exampleTab ''Home'', exampleTab ''Settings''] ! i))
      \<and> icon (props (?tabs ! i)) = icon (props ([exampleTab ''Home'', exampleTab ''Settings''] ! i))"
    by (simp add: Let_def)
  then have "title (props (?tabs ! 0)) = Some ''Home''" "title (props (?tabs ! 1)) = Some ''Settings''"
    "icon (props (?tabs ! 0)) = None" "icon (props (?tabs ! 1)) = None"
    by (simp_all add: exampleTab_def)
  moreover from len obtain a b where ab: "?tabs = [a, b]"
    by (cases ?tabs; cases "tl ?tabs"; cases "tl (tl ?tabs)") auto
  ultimately show ?thesis by simp
qed

text \<open>
  C9. \<open>onChildPress\<close> with the current \<open>selectedIndex\<close> changes nothing, whatever the
  navigator's \<open>onSelect\<close> is, and so a tap on the tab at that position never calls it;
  with any other index, and a callback, \<open>onChildPress\<close> forwards the index.
\<close>

theorem tap_on_selected_tab_is_silent:
  "onChildPress p (this_props_selectedIndex p) w = w
   \<and> (i < length (Children_toArray (children p)) \<and> int i = this_props_selectedIndex p
        \<longrightarrow> pressTab ww p i w = Some w)
   \<and> (nav_onSelect p = Some f \<and> index \<noteq> this_props_selectedIndex p
        \<longrightarrow> onChildPress p index w = f index w)"
  by (auto simp add: onChildPress_def pressTab_eq split: option.splits)

text \<open>
  The example navigator with its second tab selected: a tap on the second tab leaves
  the log as it was, and \<open>onChildPress\<close> with 0 records 0.
\<close>

theorem tap_on_selected_tab_is_silent_witness:
  "this_props_selectedIndex (exampleNavigator\<lparr>selectedIndex := Some 1\<rparr>) = 1
   \<and> onChildPress (exampleNavigator\<lparr>selectedIndex := Some 1\<rparr>) 1 [5] = [5]
   \<and> pressTab (Num 320) (exampleNavigator\<lparr>selectedIndex := Some 1\<rparr>) 1 [5] = Some [5]
   \<and> onChildPress (exampleNavigator\<lparr>selectedIndex := Some 1\<rparr>) 0 [5] = [5, 0]"
proof -
  let ?p = "exampleNavigator\<lparr>selectedIndex := Some 1\<rparr>"
  have sel: "this_props_selectedIndex ?p = 1"
    by (simp add: this_props_selectedIndex_def)
  have n: "1 < length (Children_toArray (children ?p))"
    by (simp add: exampleNavigator_def)
  have f: "nav_onSelect ?p = Some recordCall"
    by (simp add: exampleNavigator_def)
  from tap_on_selected_tab_is_silent
         [where p = ?p and w = "[5]" and i = 1 and ww = "Num 320" and f = recordCall and index = 0]
       sel n f
  show ?thesis
    by (simp add: recordCall_def)
qed

text \<open>
  C10. In every render the injected tab at position \<open>i\<close> has \<open>selected = true\<close> if
  \<open>i\<close> equals \<open>selectedIndex\<close> and \<open>selected = false\<close> otherwise, where
  \<open>selectedIndex\<close> is the number \<open>k\<close> given as the prop, and 0 when the prop is
  omitted; so two tabs that are both marked selected are the same tab.
\<close>

theorem exactly_the_selected_index_is_selected:
  "length (renderedTabs (BottomTabNavigator_render ww p)) = length (Children_toArray (children p))
   \<and> (\<forall>i < length (Children_toArray (children p)).
         selected (props (renderedTabs (BottomTabNavigator_render ww p) ! i))
           = Some (int i = (case selectedIndex p of None \<Rightarrow> 0 | Some k \<Rightarrow> k)))
   \<and> (\<forall>k. \<forall>i < length (Children_toArray (children p)).
         selected (props (renderedTabs
             (BottomTabNavigator_render ww (p\<lparr>selectedIndex := Some k\<rparr>)) ! i))
           = Some (int i = k))
   \<and> (\<forall>i < length (Children_toArray (children p)).
         selected (props (renderedTabs
             (BottomTabNavigator_render ww (p\<lparr>selectedIndex := None\<rparr>)) ! i))
           = Some (i = 0))
   \<and> (\<forall>i < length (Children_toArray (children p)). \<forall>j < length (Children_toArray (children p)).
         selected (props (renderedTabs (BottomTabNavigator_render ww p) ! i)) = Some True
         \<and> selected (props (renderedTabs (BottomTabNavigator_render ww p) ! j)) = Some True
         \<longrightarrow> i = j)"
  by (simp add: renderedTabs_render length_Children_map nth_Children_map renderTabElement_def
       this_props_selectedIndex_def defaultProps_selectedIndex_def split: option.splits)

text \<open>
  The example navigator omits \<open>selectedIndex\<close>: its first tab is marked selected and
  its second is not. With \<open>selectedIndex = 1\<close> the second tab is marked and the first
  is not.
\<close>

theorem exactly_the_selected_index_is_selected_witness:
  "selectedIndex exampleNavigator = None
   \<and> map (\<lambda>e. selected (props e)) (renderedTabs (BottomTabNavigator_render (Num 320) exampleNavigator))
     = [Some True, Some False]
   \<and> map (\<lambda>e. selected (props e))
       (renderedTabs (BottomTabNavigator_render (Num 320) (exampleNavigator\<lparr>selectedIndex := Some 1\<rparr>)))
     = [Some False, Some True]"
proof -
  let ?tabs = "renderedTabs (BottomTabNavigator_render (Num 320) exampleNavigator)"
  let ?q = "exampleNavigator\<lparr>selectedIndex := Some 1\<rparr>"
  let ?tabs1 = "renderedTabs (BottomTabNavigator_render (Num 320) ?q)"
  have omitted: "selectedIndex exampleNavigator = None"
    by (simp add: exampleNavigator_def)
  have n: "length (Children_toArray (children exampleNavigator)) = 2"
    by (simp add: exampleNavigator_def)
  note inst = exactly_the_selected_index_is_selected [of "Num 320" exampleNavigator]
  from inst have len: "length ?tabs = length (Children_toArray (children exampleNavigator))"
    by (rule conjunct1)
  from inst have sel: "\<forall>i < length (Children_toArray (children exampleNavigator)).
         selected (props (?tabs ! i))
           = Some (int i = (case selectedIndex exampleNavigator of None \<Rightarrow> 0 | Some k \<Rightarrow> k))"
    by (rule conjunct1 [OF conjunct2])
  from inst have sel1: "\<forall>k. \<forall>i < length (Children_toArray (children exampleNavigator)).
         selected (props (renderedTabs
             (BottomTabNavigator_render (Num 320) (exampleNavigator\<lparr>selectedIndex := Some k\<rparr>)) ! i))
           = Some (int i = k)"
    by (rule conjunct1 [OF conjunct2 [OF conjunct2]])
  have len1: "length ?tabs1 = 2"
    by (simp add: renderedTabs_render length_Children_map n)
  from sel n omitted
  have "selected (props (?tabs ! 0)) = Some True" "selected (props (?tabs ! 1)) = Some False"
    by simp_all
  moreover from len n obtain a b where "?tabs = [a, b]"
    using two_elems [of ?tabs] by auto
  ultimately have A: "map (\<lambda>e. selected (props e)) ?tabs = [Some True, Some False]"
    by simp
  from sel1 n
  have "selected (props (?tabs1 ! 0)) = Some False" "selected (props (?tabs1 ! 1)) = Some True"
    by simp_all
  moreover from len1 obtain c d where "?tabs1 = [c, d]"
    using two_elems [of ?tabs1] by auto
  ultimately have B: "map (\<lambda>e. selected (props e)) ?tabs1 = [Some False, Some True]"
    by simp
  from omitted A B show ?thesis by simp
qed


end
